theory Spec2Isabelle
  imports Complex_Main "HOL-Library.Multiset"
begin

section \<open>Data model\<close>

text \<open>
  The budget application of \<^verbatim>\<open>src/app.js\<close> keeps its ledger in a remote collection and
  mirrors it in the React state of the \<^verbatim>\<open>App\<close> component. The objects of the program are
  built by spreading one into the next, and the records below extend each other the same way:

  \<^item> \<^verbatim>\<open>{ description, amount: parseFloat(amount), type }\<close> is what a form hands to
    \<^verbatim>\<open>onAddItem\<close>;
  \<^item> \<^verbatim>\<open>{ ...item, createdAt: serverTimestamp(), authorId: userId }\<close> is what
    \<^verbatim>\<open>addDoc\<close> is given, and (with the timestamp filled in by the store) what
    \<^verbatim>\<open>doc.data()\<close> returns;
  \<^item> \<^verbatim>\<open>{ id: doc.id, ...doc.data() }\<close> is an entry of \<^verbatim>\<open>items\<close>.

  The type \<open>'n\<close> of amounts is a parameter: the program only ever applies \<^verbatim>\<open>+\<close> and
  \<^verbatim>\<open>-\<close> to numbers and starts its sums at \<^verbatim>\<open>0\<close>, so the functions below ask for
  nothing but these three operations and no law about them. The field \<^verbatim>\<open>type\<close> is a
  string, compared with \<^verbatim>\<open>===\<close> against two literals. The field \<^verbatim>\<open>authorId\<close> is
  \<^verbatim>\<open>null\<close> as long as no user is signed in.
\<close>

record 'n form_item =
  description :: string
  amount :: 'n
  type :: string

text \<open>The sentinel \<^verbatim>\<open>serverTimestamp()\<close> that stands for the time in a write.\<close>

datatype server_time = ServerTimestamp

record ('n, 't) doc_fields = "'n form_item" +
  createdAt :: 't
  authorId :: "string option"

record 'n ledger_item = "('n, nat) doc_fields" +
  id :: string

text \<open>
  A document of a query snapshot: \<^verbatim>\<open>doc.id\<close> and \<^verbatim>\<open>doc.data()\<close>. The data
  of a document this program wrote has the five fields above. A document of another writer
  may carry a field named \<^verbatim>\<open>id\<close> among its data as well; \<open>own_id\<close> is that field,
  \<open>None\<close> when the data has none.
\<close>

record 'n document =
  doc_id :: string
  doc_data :: "('n, nat) doc_fields"
  own_id :: "string option"

section \<open>Aggregation\<close>

text \<open>
  The callback of \<^verbatim>\<open>useMemo\<close> (lines 238 to 252):
  \<^verbatim>\<open>
  const incomeItems = items.filter(item => item.type === 'income');
  const expenseItems = items.filter(item => item.type === 'expense');
  const totalIncome = incomeItems.reduce((sum, item) => sum + item.amount, 0);
  const totalExpenses = expenseItems.reduce((sum, item) => sum + item.amount, 0);
  return { totalIncome, totalExpenses, balance: totalIncome - totalExpenses,
           incomeItems, expenseItems };
  \<close>
  \<^verbatim>\<open>reduce\<close> with an initial value is a left fold.
\<close>

record 'n aggregate =
  totalIncome :: 'n
  totalExpenses :: 'n
  balance :: 'n
  incomeItems :: "'n ledger_item list"
  expenseItems :: "'n ledger_item list"

definition derive :: "('n::{zero,plus,minus}) ledger_item list \<Rightarrow> 'n aggregate" where
  "derive its =
     (let incomeItems = filter (\<lambda>item. type item = ''income'') its;
          expenseItems = filter (\<lambda>item. type item = ''expense'') its;
          totalIncome = foldl (\<lambda>sum item. sum + amount item) 0 incomeItems;
          totalExpenses = foldl (\<lambda>sum item. sum + amount item) 0 expenseItems
      in \<lparr>totalIncome = totalIncome,
          totalExpenses = totalExpenses,
          balance = totalIncome - totalExpenses,
          incomeItems = incomeItems,
          expenseItems = expenseItems\<rparr>)"

text \<open>
  The sum the specification writes as \<open>\<Sigma> amount for type = t\<close>, read as one pass over
  the whole snapshot from its first entry to its last that adds the amount of every entry of
  type \<open>t\<close> to a running total.
\<close>

fun sum_for_type :: "string \<Rightarrow> ('n::plus) \<Rightarrow> 'n ledger_item list \<Rightarrow> 'n" where
  "sum_for_type t acc [] = acc"
| "sum_for_type t acc (e # es) =
     (if type e = t then sum_for_type t (acc + amount e) es else sum_for_type t acc es)"

section \<open>State of the \<^verbatim>\<open>App\<close> component and of its surroundings\<close>

text \<open>
  The seven \<^verbatim>\<open>useState\<close> cells of \<^verbatim>\<open>App\<close> (lines 119 to 127). The handles
  \<^verbatim>\<open>db\<close> and \<^verbatim>\<open>auth\<close> are opaque objects, \<^verbatim>\<open>null\<close> until the first effect
  has stored them.
\<close>

datatype firestore = Firestore

datatype auth_instance = Auth

record 'n app_state =
  db :: "firestore option"
  auth :: "auth_instance option"
  userId :: "string option"
  isAuthReady :: bool
  items :: "'n ledger_item list"
  loading :: bool
  error :: "string option"

definition initial_state :: "'n app_state" where
  "initial_state =
     \<lparr>db = None, auth = None, userId = None, isAuthReady = False,
      items = [], loading = True, error = None\<rparr>"

text \<open>
  The program is asynchronous: \<^verbatim>\<open>handleAddItem\<close>, \<^verbatim>\<open>handleDeleteItem\<close> and the
  callback of \<^verbatim>\<open>onAuthStateChanged\<close> each run up to their \<^verbatim>\<open>await\<close>, hand a
  request to the library and resume when its promise settles; in between, any other handler
  may run on the one event loop. A request that was issued and has not settled is kept in
  \<open>pending\<close>, in the order of issue. The value a promise resolves with stays abstract
  (the handlers discard it); for a delete the store's interface names two replies, success
  and not-found.
\<close>

datatype 'n request =
    AddDoc string "('n, server_time) doc_fields"
  | DeleteDoc string
  | SignInAnonymously

datatype store_reply = Success | NotFound

datatype outcome = Resolved store_reply | Rejected string

text \<open>
  The query \<^verbatim>\<open>query(itemsCollection, orderBy('createdAt', 'desc'))\<close> that
  \<^verbatim>\<open>onSnapshot\<close> listens to.
\<close>

datatype direction = Asc | Desc

record listen_query =
  query_path :: string
  order_field :: string
  order_dir :: direction

record 'n world =
  app :: "'n app_state"
  pending :: "'n request list"
  authListener :: bool
  listener :: "listen_query option"
  console :: "string list"

definition initial_world :: "'n world" where
  "initial_world =
     \<lparr>app = initial_state, pending = [], authListener = False, listener = None, console = []\<rparr>"

section \<open>Paths\<close>

text \<open>
  \<^verbatim>\<open>typeof __app_id !== 'undefined' ? __app_id : 'default-app-id'\<close>: the global
  \<^verbatim>\<open>__app_id\<close> is a parameter \<open>g\<close> of every function that builds a path.
\<close>

definition appId :: "string option \<Rightarrow> string" where
  "appId g = (case g of Some a \<Rightarrow> a | None \<Rightarrow> ''default-app-id'')"

definition collectionPath :: "string option \<Rightarrow> string" where
  "collectionPath g = ''artifacts/'' @ appId g @ ''/public/data/budget-items''"

definition docPath :: "string option \<Rightarrow> string \<Rightarrow> string" where
  "docPath g i = ''artifacts/'' @ appId g @ ''/public/data/budget-items/'' @ i"

section \<open>The first effect: initialisation and authentication\<close>

text \<open>
  Lines 130 to 173. The parsed configuration is \<^verbatim>\<open>null\<close> when the environment holds
  none. Anything \<^verbatim>\<open>initializeApp\<close>, \<^verbatim>\<open>getFirestore\<close> or \<^verbatim>\<open>getAuth\<close> throws is
  caught by the \<^verbatim>\<open>try\<close> around them, before \<^verbatim>\<open>setDb\<close> is reached.
\<close>

datatype init_result = InitOk | InitThrows string

definition initEffect :: "'n world \<Rightarrow> string option \<Rightarrow> init_result \<Rightarrow> 'n world" where
  "initEffect w firebaseConfig r =
     (case firebaseConfig of
        None \<Rightarrow>
          w\<lparr>app := (app w)\<lparr>error := Some ''Firebase configuration is missing. Make sure it's set in Netlify.'',
                           loading := False\<rparr>\<rparr>
      | Some cfg \<Rightarrow>
          (case r of
             InitOk \<Rightarrow>
               w\<lparr>app := (app w)\<lparr>db := Some Firestore, auth := Some Auth\<rparr>,
                 authListener := True\<rparr>
           | InitThrows e \<Rightarrow>
               w\<lparr>app := (app w)\<lparr>error := Some ''Could not connect to the database.'',
                                loading := False\<rparr>,
                 console := console w @ [''Firebase Initialization Error:'' @ e]\<rparr>))"

text \<open>
  The callback given to \<^verbatim>\<open>onAuthStateChanged\<close>, up to its \<^verbatim>\<open>await\<close> (with a user
  there is none and it runs to its end), and its resumption once
  \<^verbatim>\<open>signInAnonymously\<close> has settled.
\<close>

definition onAuthStateChanged_callback :: "'n world \<Rightarrow> string option \<Rightarrow> 'n world" where
  "onAuthStateChanged_callback w user =
     (case user of
        Some uid \<Rightarrow> w\<lparr>app := (app w)\<lparr>userId := Some uid, isAuthReady := True\<rparr>\<rparr>
      | None \<Rightarrow> w\<lparr>pending := pending w @ [SignInAnonymously]\<rparr>)"

definition signIn_settled :: "'n world \<Rightarrow> outcome \<Rightarrow> 'n world" where
  "signIn_settled w out =
     (case out of
        Resolved r \<Rightarrow> w\<lparr>app := (app w)\<lparr>isAuthReady := True\<rparr>\<rparr>
      | Rejected authError \<Rightarrow>
          w\<lparr>app := (app w)\<lparr>error := Some ''Failed to authenticate. Please refresh the page.'',
                           isAuthReady := True\<rparr>,
            console := console w @ [''Authentication Error:'' @ authError]\<rparr>)"

section \<open>The second effect: the subscription\<close>

text \<open>
  Lines 176 to 203. \<^verbatim>\<open>!userId\<close> holds of \<^verbatim>\<open>null\<close> and of the empty string.
\<close>

definition truthy :: "string option \<Rightarrow> bool" where
  "truthy u = (case u of None \<Rightarrow> False | Some s \<Rightarrow> s \<noteq> [])"

definition dataFetchEffect :: "string option \<Rightarrow> 'n world \<Rightarrow> 'n world" where
  "dataFetchEffect g w =
     (if db (app w) = None \<or> \<not> isAuthReady (app w) \<or> \<not> truthy (userId (app w)) then w
      else w\<lparr>app := (app w)\<lparr>loading := True\<rparr>,
             listener := Some \<lparr>query_path = collectionPath g,
                              order_field = ''createdAt'',
                              order_dir = Desc\<rparr>\<rparr>)"

text \<open>The cleanup the effect returns, \<^verbatim>\<open>() => unsubscribe()\<close>.\<close>

definition unsubscribe :: "'n world \<Rightarrow> 'n world" where
  "unsubscribe w = w\<lparr>listener := None\<rparr>"

text \<open>
  \<^verbatim>\<open>doc => ({ id: doc.id, ...doc.data() })\<close>: the data is spread after \<^verbatim>\<open>id\<close>, so
  a field named \<^verbatim>\<open>id\<close> among the data replaces the document's identifier.
\<close>

definition toItem :: "'n document \<Rightarrow> 'n ledger_item" where
  "toItem d =
     \<lparr>description = description (doc_data d), amount = amount (doc_data d),
      type = type (doc_data d), createdAt = createdAt (doc_data d),
      authorId = authorId (doc_data d),
      id = (case own_id d of None \<Rightarrow> doc_id d | Some x \<Rightarrow> x)\<rparr>"

definition onSnapshot_next :: "'n world \<Rightarrow> 'n document list \<Rightarrow> 'n world" where
  "onSnapshot_next w docs =
     (let fetchedItems = map toItem docs
      in w\<lparr>app := (app w)\<lparr>items := fetchedItems, loading := False\<rparr>\<rparr>)"

definition onSnapshot_error :: "'n world \<Rightarrow> string \<Rightarrow> 'n world" where
  "onSnapshot_error w err =
     w\<lparr>app := (app w)\<lparr>error := Some ''Failed to fetch budget items.'', loading := False\<rparr>,
       console := console w @ [''Firestore Error:'' @ err]\<rparr>"

section \<open>The mutation handlers\<close>

text \<open>
  \<^verbatim>\<open>handleAddItem\<close> (lines 206 to 223) up to the \<^verbatim>\<open>await\<close>, and what
  \<^verbatim>\<open>catch\<close> and \<^verbatim>\<open>finally\<close> do once \<^verbatim>\<open>addDoc\<close> has settled.
\<close>

definition handleAddItem :: "string option \<Rightarrow> 'n world \<Rightarrow> 'n form_item \<Rightarrow> 'n world" where
  "handleAddItem g w item =
     (if db (app w) = None then w
      else w\<lparr>app := (app w)\<lparr>loading := True\<rparr>,
             pending := pending w @
               [AddDoc (collectionPath g)
                  \<lparr>description = description item, amount = amount item, type = type item,
                   createdAt = ServerTimestamp, authorId = userId (app w)\<rparr>]\<rparr>)"

definition handleAddItem_settled :: "'n world \<Rightarrow> outcome \<Rightarrow> 'n world" where
  "handleAddItem_settled w out =
     (case out of
        Resolved r \<Rightarrow> w\<lparr>app := (app w)\<lparr>loading := False\<rparr>\<rparr>
      | Rejected err \<Rightarrow>
          w\<lparr>app := (app w)\<lparr>error := Some ''Could not add the item.'', loading := False\<rparr>,
            console := console w @ [''Error adding document: '' @ err]\<rparr>)"

text \<open>\<^verbatim>\<open>handleDeleteItem\<close> (lines 225 to 235), split the same way.\<close>

definition handleDeleteItem :: "string option \<Rightarrow> 'n world \<Rightarrow> string \<Rightarrow> 'n world" where
  "handleDeleteItem g w i =
     (if db (app w) = None then w
      else w\<lparr>pending := pending w @ [DeleteDoc (docPath g i)]\<rparr>)"

definition handleDeleteItem_settled :: "'n world \<Rightarrow> outcome \<Rightarrow> 'n world" where
  "handleDeleteItem_settled w out =
     (case out of
        Resolved r \<Rightarrow> w
      | Rejected err \<Rightarrow>
          w\<lparr>app := (app w)\<lparr>error := Some ''Could not delete the item.''\<rparr>,
            console := console w @ [''Error deleting document: '' @ err]\<rparr>)"

section \<open>The form\<close>

text \<open>
  \<^verbatim>\<open>handleSubmit\<close> of \<^verbatim>\<open>AddItemForm\<close> (lines 26 to 35). The two inputs hold text;
  \<^verbatim>\<open>!description\<close> and \<^verbatim>\<open>!amount\<close> hold of the empty string only.
  \<^verbatim>\<open>parseFloat\<close> is the language's and is a parameter. The function returns the
  fields as it leaves them, and either the alert it raised or the item it handed to
  \<^verbatim>\<open>onAddItem\<close>.
\<close>

record form_fields =
  description_text :: string
  amount_text :: string

datatype 'n submitted = Alerted string | Passed "'n form_item"

definition handleSubmit ::
  "(string \<Rightarrow> 'n) \<Rightarrow> string \<Rightarrow> form_fields \<Rightarrow> form_fields \<times> 'n submitted" where
  "handleSubmit parseFloat ty f =
     (if description_text f = [] \<or> amount_text f = []
      then (f, Alerted ''Please fill out both description and amount.'')
      else (\<lparr>description_text = [], amount_text = []\<rparr>,
            Passed \<lparr>description = description_text f,
                    amount = parseFloat (amount_text f),
                    type = ty\<rparr>))"

text \<open>
  What stands between the user and \<^verbatim>\<open>handleSubmit\<close> is declared in the markup. The
  \<^verbatim>\<open>form\<close> element (line 45) has no \<^verbatim>\<open>noValidate\<close>, so the browser checks the
  constraints of its inputs and fires \<^verbatim>\<open>onSubmit\<close> only when none is violated: the
  description is \<^verbatim>\<open>required\<close> (line 55), and the amount is
  \<^verbatim>\<open>type="number" min="0.01" step="0.01" required\<close> (lines 60 to 70). A number input
  holds the empty string or the text of a number; the number the browser reads from that
  text and the one \<^verbatim>\<open>parseFloat\<close> reads are the same, so one parameter stands for
  both. With \<^verbatim>\<open>min\<close> as the step base, a value matches the step when its distance from
  \<^verbatim>\<open>min\<close> is a whole number of steps.
\<close>

datatype violation = DescriptionMissing | AmountMissing | RangeUnderflow | StepMismatch

definition amount_min :: "'n::floor_ceiling" where
  "amount_min = 1 / 100"

definition amount_step :: "'n::floor_ceiling" where
  "amount_step = 1 / 100"

definition stepMismatch :: "'n::floor_ceiling \<Rightarrow> bool" where
  "stepMismatch v =
     (of_int \<lfloor>(v - amount_min) / amount_step\<rfloor> \<noteq> (v - amount_min) / amount_step)"

definition checkValidity :: "(string \<Rightarrow> 'n::floor_ceiling) \<Rightarrow> form_fields \<Rightarrow> violation list" where
  "checkValidity parseFloat f =
     (if description_text f = [] then [DescriptionMissing] else []) @
     (if amount_text f = [] then [AmountMissing]
      else (if parseFloat (amount_text f) < amount_min then [RangeUnderflow] else []) @
           (if stepMismatch (parseFloat (amount_text f)) then [StepMismatch] else []))"

text \<open>
  The forms are part of what \<^verbatim>\<open>App\<close> renders only while \<^verbatim>\<open>error\<close> is
  \<^verbatim>\<open>null\<close>: with an error the component returns the error message alone (lines 255 to
  257). The submit button is \<^verbatim>\<open>disabled={loading}\<close> (line 74), and a form whose
  submit button is disabled is not submitted.
\<close>

definition forms_rendered :: "'n world \<Rightarrow> bool" where
  "forms_rendered w = (error (app w) = None)"

text \<open>
  A submission of the form
  \<^verbatim>\<open><AddItemForm type=... onAddItem={handleAddItem} loading={loading}/>\<close>: what is left
  in the fields, the world afterwards, and what came of it.
\<close>

datatype outcome_of_submit =
    NotRendered
  | ButtonDisabled
  | Invalid "violation list"
  | Alert string
  | Handed

record 'n submission =
  fields_after :: form_fields
  world_after :: "'n world"
  reported :: outcome_of_submit

definition submitForm ::
  "(string \<Rightarrow> 'n::floor_ceiling) \<Rightarrow> string \<Rightarrow> string option \<Rightarrow> 'n world \<Rightarrow> form_fields
     \<Rightarrow> 'n submission" where
  "submitForm parseFloat ty g w f =
     (if \<not> forms_rendered w
      then \<lparr>fields_after = f, world_after = w, reported = NotRendered\<rparr>
      else if loading (app w)
      then \<lparr>fields_after = f, world_after = w, reported = ButtonDisabled\<rparr>
      else if checkValidity parseFloat f \<noteq> []
      then \<lparr>fields_after = f, world_after = w,
            reported = Invalid (checkValidity parseFloat f)\<rparr>
      else (case handleSubmit parseFloat ty f of
              (f', Alerted msg) \<Rightarrow>
                \<lparr>fields_after = f', world_after = w, reported = Alert msg\<rparr>
            | (f', Passed item) \<Rightarrow>
                \<lparr>fields_after = f', world_after = handleAddItem g w item,
                 reported = Handed\<rparr>))"

section \<open>Events\<close>

text \<open>
  Everything that makes code of the component run: the mount (the first effect, with the
  parsed configuration and whether initialisation throws), a notification of the identity
  provider, a call of either handler, the settling of the \<open>k\<close>-th pending request, and
  the two callbacks of the subscription. A callback runs only while its listener is
  registered. After the handler, React runs the second effect again when one of its
  dependencies \<^verbatim>\<open>[db, isAuthReady, userId]\<close> has changed, its previous cleanup first.
\<close>

datatype 'n event =
    Mounted "string option" init_result
  | AuthStateChanged "string option"
  | AddItemCalled "'n form_item"
  | DeleteItemCalled string
  | Settled nat outcome
  | SnapshotArrived "'n document list"
  | SnapshotFailed string

definition remove_nth :: "nat \<Rightarrow> 'a list \<Rightarrow> 'a list" where
  "remove_nth k xs = take k xs @ drop (Suc k) xs"

definition resume :: "'n request \<Rightarrow> 'n world \<Rightarrow> outcome \<Rightarrow> 'n world" where
  "resume rq w out =
     (case rq of
        AddDoc p d \<Rightarrow> handleAddItem_settled w out
      | DeleteDoc p \<Rightarrow> handleDeleteItem_settled w out
      | SignInAnonymously \<Rightarrow> signIn_settled w out)"

definition handle :: "string option \<Rightarrow> 'n world \<Rightarrow> 'n event \<Rightarrow> 'n world" where
  "handle g w e =
     (case e of
        Mounted cfg r \<Rightarrow> initEffect w cfg r
      | AuthStateChanged user \<Rightarrow>
          (if authListener w then onAuthStateChanged_callback w user else w)
      | AddItemCalled item \<Rightarrow> handleAddItem g w item
      | DeleteItemCalled i \<Rightarrow> handleDeleteItem g w i
      | Settled k out \<Rightarrow>
          (if k < length (pending w)
           then resume (pending w ! k) (w\<lparr>pending := remove_nth k (pending w)\<rparr>) out
           else w)
      | SnapshotArrived docs \<Rightarrow> (if listener w = None then w else onSnapshot_next w docs)
      | SnapshotFailed err \<Rightarrow> (if listener w = None then w else onSnapshot_error w err))"

definition deps :: "'n world \<Rightarrow> firestore option \<times> bool \<times> string option" where
  "deps w = (db (app w), isAuthReady (app w), userId (app w))"

definition step :: "string option \<Rightarrow> 'n world \<Rightarrow> 'n event \<Rightarrow> 'n world" where
  "step g w e =
     (let w' = handle g w e
      in if deps w' = deps w then w' else dataFetchEffect g (unsubscribe w'))"

fun run :: "string option \<Rightarrow> 'n world \<Rightarrow> 'n event list \<Rightarrow> 'n world" where
  "run g w [] = w"
| "run g w (e # es) = run g (step g w e) es"

section \<open>The remote store\<close>

text \<open>
  Modelled from the spec: the remote store, a service outside the repository, of which the
  source holds only the calls. What follows is its interface as the specification gives it
  (section 6): \<open>insert(path, fields)\<close> creates a document under
  an identifier and a time of the store's choosing, \<open>delete(path/id)\<close> removes the
  document at that path and answers success or not-found, and a subscription is pushed the
  full collection in the order of its query. A stored document is kept with the path of its
  collection; its own path is that path, a slash, and its identifier.
\<close>

type_synonym 'n store = "(string \<times> 'n document) list"

definition document_path :: "string \<times> 'n document \<Rightarrow> string" where
  "document_path e = fst e @ ''/'' @ doc_id (snd e)"

definition store_apply ::
  "'n request \<Rightarrow> string \<Rightarrow> nat \<Rightarrow> 'n store \<Rightarrow> 'n store \<times> store_reply" where
  "store_apply rq newId now st =
     (case rq of
        AddDoc p d \<Rightarrow>
          (st @ [(p, \<lparr>doc_id = newId,
                        doc_data = \<lparr>description = description d, amount = amount d,
                                    type = type d, createdAt = now,
                                    authorId = authorId d\<rparr>,
                        own_id = None\<rparr>)],
           Success)
      | DeleteDoc p \<Rightarrow>
          (filter (\<lambda>e. document_path e \<noteq> p) st,
           if p \<in> set (map document_path st) then Success else NotFound)
      | SignInAnonymously \<Rightarrow> (st, Success))"

definition store_snapshot :: "listen_query \<Rightarrow> 'n store \<Rightarrow> 'n document list" where
  "store_snapshot q st =
     (let docs = map snd (filter (\<lambda>e. fst e = query_path q) st)
      in if order_field q = ''createdAt''
         then (case order_dir q of
                 Asc \<Rightarrow> sort_key (\<lambda>d. createdAt (doc_data d)) docs
               | Desc \<Rightarrow> rev (sort_key (\<lambda>d. createdAt (doc_data d)) docs))
         else docs)"

text \<open>
  The component together with the store. An event of the component alone leaves the store
  as it is (among them a rejection: the store did not carry the request out). When the
  store acknowledges the \<open>k\<close>-th pending request it carries it out and the promise
  resolves with its reply; when it delivers, the listener is called with the snapshot of
  its query.
\<close>

record 'n system =
  client :: "'n world"
  remote :: "'n store"

datatype 'n system_event =
    Client "'n event"
  | Acknowledged nat string nat
  | Delivered

definition system_step :: "string option \<Rightarrow> 'n system \<Rightarrow> 'n system_event \<Rightarrow> 'n system" where
  "system_step g s ev =
     (case ev of
        Client e \<Rightarrow> s\<lparr>client := step g (client s) e\<rparr>
      | Acknowledged k newId now \<Rightarrow>
          (if k < length (pending (client s))
           then (case store_apply (pending (client s) ! k) newId now (remote s) of
                   (st, reply) \<Rightarrow>
                     \<lparr>client = step g (client s) (Settled k (Resolved reply)),
                      remote = st\<rparr>)
           else s)
      | Delivered \<Rightarrow>
          (case listener (client s) of
             None \<Rightarrow> s
           | Some q \<Rightarrow>
               s\<lparr>client :=
                   step g (client s) (SnapshotArrived (store_snapshot q (remote s)))\<rparr>))"

fun system_run :: "string option \<Rightarrow> 'n system \<Rightarrow> 'n system_event list \<Rightarrow> 'n system" where
  "system_run g s [] = s"
| "system_run g s (ev # evs) = system_run g (system_step g s ev) evs"

section \<open>Predicates the properties are stated with\<close>

text \<open>
  The identifier of a document is not empty and holds no slash; for any other text
  \<^verbatim>\<open>doc(db, docPath)\<close> does not name a document of the collection.
\<close>

definition valid_id :: "string \<Rightarrow> bool" where
  "valid_id i = (i \<noteq> [] \<and> CHR ''/'' \<notin> set i)"

definition is_AddDoc :: "'n request \<Rightarrow> bool" where
  "is_AddDoc rq =
     (case rq of AddDoc p d \<Rightarrow> True | DeleteDoc p \<Rightarrow> False | SignInAnonymously \<Rightarrow> False)"

definition is_DeleteDoc :: "'n request \<Rightarrow> bool" where
  "is_DeleteDoc rq =
     (case rq of AddDoc p d \<Rightarrow> False | DeleteDoc p \<Rightarrow> True | SignInAnonymously \<Rightarrow> False)"

text \<open>
  An event of delete traffic: a call of \<^verbatim>\<open>handleDeleteItem\<close>, or the settling of a
  pending \<^verbatim>\<open>deleteDoc\<close>.
\<close>

definition delete_event :: "'n world \<Rightarrow> 'n event \<Rightarrow> bool" where
  "delete_event w e =
     (case e of
        DeleteItemCalled i \<Rightarrow> True
      | Settled k out \<Rightarrow> k < length (pending w) \<and> is_DeleteDoc (pending w ! k)
      | _ \<Rightarrow> False)"

fun only_deletes :: "string option \<Rightarrow> 'n world \<Rightarrow> 'n event list \<Rightarrow> bool" where
  "only_deletes g w [] = True"
| "only_deletes g w (e # es) = (delete_event w e \<and> only_deletes g (step g w e) es)"

definition is_snapshot :: "'n event \<Rightarrow> bool" where
  "is_snapshot e = (case e of SnapshotArrived docs \<Rightarrow> True | _ \<Rightarrow> False)"

text \<open>
  What the store owes a listener: the documents of a snapshot come in the order the query
  asks for. The program does not sort; it asks for \<^verbatim>\<open>createdAt\<close>, descending.
\<close>

definition in_query_order :: "listen_query \<Rightarrow> 'n document list \<Rightarrow> bool" where
  "in_query_order q docs =
     (if order_field q = ''createdAt''
      then (case order_dir q of
              Desc \<Rightarrow> sorted_wrt (\<lambda>a b. b \<le> a) (map (\<lambda>d. createdAt (doc_data d)) docs)
            | Asc \<Rightarrow> sorted_wrt (\<lambda>a b. a \<le> b) (map (\<lambda>d. createdAt (doc_data d)) docs))
      else True)"

definition honoured :: "'n world \<Rightarrow> 'n event \<Rightarrow> bool" where
  "honoured w e =
     (case e of
        SnapshotArrived docs \<Rightarrow>
          (case listener w of None \<Rightarrow> True | Some q \<Rightarrow> in_query_order q docs)
      | _ \<Rightarrow> True)"

fun store_honours_query :: "string option \<Rightarrow> 'n world \<Rightarrow> 'n event list \<Rightarrow> bool" where
  "store_honours_query g w [] = True"
| "store_honours_query g w (e # es) =
     (honoured w e \<and> store_honours_query g (step g w e) es)"

text \<open>
  A listener is registered only with a database handle, a finished handshake and a user
  identifier, and only for the query of the second effect.
\<close>

definition gated :: "'n world \<Rightarrow> bool" where
  "gated w =
     (case listener w of
        None \<Rightarrow> True
      | Some q \<Rightarrow>
          db (app w) \<noteq> None \<and> isAuthReady (app w) \<and> truthy (userId (app w)) \<and>
          order_field q = ''createdAt'' \<and> order_dir q = Desc)"

definition mirror_ok :: "'n world \<Rightarrow> bool" where
  "mirror_ok w =
     (gated w \<and> sorted_wrt (\<lambda>a b. b \<le> a) (map createdAt (items (app w))))"

section \<open>Concrete inputs\<close>

text \<open>
  The two entries of the specification's scenario and their documents, an entry whose type
  is neither of the two literals, three items for the add handler, a world in which the
  handshake is over and the mirror holds the scenario, and that world with a store that
  holds the two documents.
\<close>

definition paycheck :: "real ledger_item" where
  "paycheck =
     \<lparr>description = ''Paycheck'', amount = 1000, type = ''income'',
      createdAt = 1, authorId = Some ''u1'', id = ''a''\<rparr>"

definition groceries :: "real ledger_item" where
  "groceries =
     \<lparr>description = ''Groceries'', amount = 150.5, type = ''expense'',
      createdAt = 2, authorId = Some ''u1'', id = ''b''\<rparr>"

definition transfer :: "real ledger_item" where
  "transfer =
     \<lparr>description = ''To savings'', amount = 40, type = ''transfer'',
      createdAt = 3, authorId = None, id = ''c''\<rparr>"

definition paycheck_doc :: "real document" where
  "paycheck_doc =
     \<lparr>doc_id = ''a'',
      doc_data = \<lparr>description = ''Paycheck'', amount = 1000, type = ''income'',
                  createdAt = 1, authorId = Some ''u1''\<rparr>,
      own_id = None\<rparr>"

definition groceries_doc :: "real document" where
  "groceries_doc =
     \<lparr>doc_id = ''b'',
      doc_data = \<lparr>description = ''Groceries'', amount = 150.5, type = ''expense'',
                  createdAt = 2, authorId = Some ''u1''\<rparr>,
      own_id = None\<rparr>"

definition refund :: "real form_item" where
  "refund = \<lparr>description = ''Refund'', amount = - 5, type = ''expense''\<rparr>"

definition coffee :: "real form_item" where
  "coffee = \<lparr>description = ''Coffee'', amount = 3.5, type = ''expense''\<rparr>"

text \<open>A reading of the three amount texts the examples type into the form.\<close>

definition read_amount :: "string \<Rightarrow> real" where
  "read_amount t = (if t = ''-5'' then - 5 else if t = ''3.50'' then 3.5 else 0)"

definition ready_world :: "real world" where
  "ready_world =
     \<lparr>app = \<lparr>db = Some Firestore, auth = Some Auth, userId = Some ''u1'',
              isAuthReady = True, items = [groceries, paycheck], loading = False,
              error = None\<rparr>,
      pending = [],
      authListener = True,
      listener = Some \<lparr>query_path = ''artifacts/default-app-id/public/data/budget-items'',
                       order_field = ''createdAt'', order_dir = Desc\<rparr>,
      console = []\<rparr>"

definition ready_system :: "real system" where
  "ready_system =
     \<lparr>client = ready_world,
      remote = [(''artifacts/default-app-id/public/data/budget-items'', paycheck_doc),
                (''artifacts/default-app-id/public/data/budget-items'', groceries_doc)]\<rparr>"

section \<open>Aggregation: partition and totals\<close>

lemma derive_fields:
  "incomeItems (derive its) = filter (\<lambda>item. type item = ''income'') its"
  "expenseItems (derive its) = filter (\<lambda>item. type item = ''expense'') its"
  "totalIncome (derive its) =
     foldl (\<lambda>sum item. sum + amount item) 0 (filter (\<lambda>item. type item = ''income'') its)"
  "totalExpenses (derive its) =
     foldl (\<lambda>sum item. sum + amount item) 0 (filter (\<lambda>item. type item = ''expense'') its)"
  "balance (derive its) = totalIncome (derive its) - totalExpenses (derive its)"
  by (simp_all add: derive_def Let_def)

lemma foldl_amount_sum_for_type:
  "foldl (\<lambda>sum item. sum + amount item) acc (filter (\<lambda>item. type item = t) its) =
     sum_for_type t acc its"
  by (induction its arbitrary: acc) simp_all

text \<open>
  Where addition is exact (a monoid: integers, rationals, reals), the running total is the
  sum of the list of amounts.
\<close>

lemma sum_for_type_sum_list:
  fixes acc :: "'n::monoid_add"
  shows "sum_for_type t acc its =
           acc + sum_list (map amount (filter (\<lambda>item. type item = t) its))"
  by (induction its arbitrary: acc) (simp_all add: add.assoc)

text \<open>
  Claim C2. On every snapshot of ledger entries, that is, when every entry has type
  \<open>income\<close> or \<open>expense\<close>, the aggregation partitions the snapshot totally and
  exclusively: \<open>incomeItems\<close> holds the entries of type \<open>income\<close> and
  \<open>expenseItems\<close> all the others, both in the order of the snapshot; together they hold
  the entries of the snapshot, no entry is in both, and each occurrence of an entry is in
  exactly one of them.
\<close>

theorem derive_partition:
  assumes "\<forall>e \<in> set S. type e = ''income'' \<or> type e = ''expense''"
  shows "incomeItems (derive S) = filter (\<lambda>e. type e = ''income'') S \<and>
         expenseItems (derive S) = filter (\<lambda>e. type e \<noteq> ''income'') S \<and>
         set (incomeItems (derive S)) \<union> set (expenseItems (derive S)) = set S \<and>
         set (incomeItems (derive S)) \<inter> set (expenseItems (derive S)) = {} \<and>
         mset (incomeItems (derive S)) + mset (expenseItems (derive S)) = mset S"
proof -
  have rest: "filter (\<lambda>e. type e = ''expense'') S = filter (\<lambda>e. type e \<noteq> ''income'') S"
    using assms by (intro filter_cong) auto
  show ?thesis
    using rest by (auto simp: derive_fields)
qed

theorem derive_partition_witness:
  "type groceries = ''expense'' \<and> type paycheck = ''income'' \<and>
   incomeItems (derive [groceries, paycheck]) = [paycheck] \<and>
   expenseItems (derive [groceries, paycheck]) = [groceries] \<and>
   set (incomeItems (derive [groceries, paycheck])) \<union>
     set (expenseItems (derive [groceries, paycheck])) = {groceries, paycheck} \<and>
   mset (incomeItems (derive [groceries, paycheck])) +
     mset (expenseItems (derive [groceries, paycheck])) = mset [groceries, paycheck]"
proof -
  have h: "\<forall>e \<in> set [groceries, paycheck]. type e = ''income'' \<or> type e = ''expense''"
    by (simp add: groceries_def paycheck_def)
  show ?thesis
    using derive_partition [OF h]
    by (simp add: groceries_def paycheck_def)
qed

text \<open>
  The two lists are built by two filters, each on its own literal. A document of another
  writer whose type is neither is therefore in neither list; no entry this program writes
  is of that kind.
\<close>

lemma derive_other_type:
  "incomeItems (derive [transfer]) = [] \<and> expenseItems (derive [transfer]) = []"
  by (simp add: derive_fields transfer_def)

text \<open>
  Claim C3. For every snapshot, \<open>totalIncome\<close> is the sum of the amounts of the entries of
  type \<open>income\<close>, \<open>totalExpenses\<close> the sum of the amounts of the entries of type
  \<open>expense\<close>, and \<open>balance\<close> is the first minus the second. Nothing is assumed of the
  arithmetic, so the statement holds of the program's floating-point numbers as it does of
  exact ones.
\<close>

theorem derive_totals:
  "totalIncome (derive S) = sum_for_type ''income'' 0 S \<and>
   totalExpenses (derive S) = sum_for_type ''expense'' 0 S \<and>
   balance (derive S) = totalIncome (derive S) - totalExpenses (derive S)"
  by (simp add: derive_fields foldl_amount_sum_for_type)

theorem derive_totals_witness:
  "totalIncome (derive [groceries, paycheck]) = 1000 \<and>
   totalExpenses (derive [groceries, paycheck]) = 150.5 \<and>
   balance (derive [groceries, paycheck]) = 849.5"
  using derive_totals [of "[groceries, paycheck]"]
  by (simp add: groceries_def paycheck_def)

section \<open>How one event changes the world\<close>

lemma step_same_deps: "deps (handle g w e) = deps w \<Longrightarrow> step g w e = handle g w e"
  by (simp add: step_def Let_def)

lemma handleAddItem_deps: "deps (handleAddItem g w item) = deps w"
  by (simp add: handleAddItem_def deps_def)

lemma handleDeleteItem_deps: "deps (handleDeleteItem g w i) = deps w"
  by (simp add: handleDeleteItem_def deps_def)

lemma step_AddItemCalled: "step g w (AddItemCalled item) = handleAddItem g w item"
  by (simp add: step_same_deps handle_def handleAddItem_deps)

lemma step_DeleteItemCalled: "step g w (DeleteItemCalled i) = handleDeleteItem g w i"
  by (simp add: step_same_deps handle_def handleDeleteItem_deps)

lemma step_Settled_AddDoc:
  "k < length (pending w) \<Longrightarrow> pending w ! k = AddDoc p d \<Longrightarrow>
   step g w (Settled k out) =
     handleAddItem_settled (w\<lparr>pending := remove_nth k (pending w)\<rparr>) out"
  by (rule trans [OF step_same_deps])
     (simp_all add: handle_def resume_def handleAddItem_settled_def deps_def
        split: outcome.splits)

lemma step_Settled_DeleteDoc:
  "k < length (pending w) \<Longrightarrow> pending w ! k = DeleteDoc p \<Longrightarrow>
   step g w (Settled k out) =
     handleDeleteItem_settled (w\<lparr>pending := remove_nth k (pending w)\<rparr>) out"
  by (rule trans [OF step_same_deps])
     (simp_all add: handle_def resume_def handleDeleteItem_settled_def deps_def
        split: outcome.splits)

lemma step_SnapshotArrived:
  "step g w (SnapshotArrived docs) =
     (if listener w = None then w else onSnapshot_next w docs)"
  by (rule trans [OF step_same_deps])
     (simp_all add: handle_def onSnapshot_next_def deps_def)

lemma remove_nth_append_last: "remove_nth (length xs) (xs @ [x]) = xs"
  by (simp add: remove_nth_def)

text \<open>The world of the examples is one the component reaches.\<close>

lemma ready_world_reachable:
  "run None initial_world
     [Mounted (Some ''{}'') InitOk, AuthStateChanged (Some ''u1''),
      SnapshotArrived [groceries_doc, paycheck_doc]] = ready_world"
  by (simp add: step_def handle_def initEffect_def initial_world_def initial_state_def
      deps_def dataFetchEffect_def unsubscribe_def onAuthStateChanged_callback_def
      truthy_def Let_def onSnapshot_next_def toItem_def collectionPath_def appId_def
      groceries_doc_def paycheck_doc_def groceries_def paycheck_def ready_world_def)

lemma handle_items: "\<not> is_snapshot e \<Longrightarrow> items (app (handle g w e)) = items (app w)"
  by (cases e)
     (auto simp: handle_def is_snapshot_def initEffect_def onAuthStateChanged_callback_def
        handleAddItem_def handleDeleteItem_def resume_def handleAddItem_settled_def
        handleDeleteItem_settled_def signIn_settled_def onSnapshot_error_def
        split: option.splits init_result.splits request.splits outcome.splits)

lemma handle_listener: "listener (handle g w e) = listener w"
  by (cases e)
     (auto simp: handle_def initEffect_def onAuthStateChanged_callback_def
        handleAddItem_def handleDeleteItem_def resume_def handleAddItem_settled_def
        handleDeleteItem_settled_def signIn_settled_def onSnapshot_error_def
        onSnapshot_next_def
        split: option.splits init_result.splits request.splits outcome.splits)

lemma dataFetchEffect_items: "items (app (dataFetchEffect g w)) = items (app w)"
  by (simp add: dataFetchEffect_def)

lemma step_items: "\<not> is_snapshot e \<Longrightarrow> items (app (step g w e)) = items (app w)"
  by (simp add: step_def Let_def dataFetchEffect_items unsubscribe_def handle_items)

lemma run_items:
  "\<forall>e \<in> set es. \<not> is_snapshot e \<Longrightarrow> items (app (run g w es)) = items (app w)"
  by (induction es arbitrary: w) (simp_all add: step_items)

lemma dataFetchEffect_listener:
  "listener (dataFetchEffect g (unsubscribe w)) =
     (if db (app w) \<noteq> None \<and> isAuthReady (app w) \<and> truthy (userId (app w))
      then Some \<lparr>query_path = collectionPath g, order_field = ''createdAt'', order_dir = Desc\<rparr>
      else None)"
  by (simp add: dataFetchEffect_def unsubscribe_def)

lemma dataFetchEffect_deps: "deps (dataFetchEffect g (unsubscribe w)) = deps w"
  by (simp add: dataFetchEffect_def unsubscribe_def deps_def)

text \<open>
  After an event, either the dependencies and the listener are what they were, or the second
  effect has run and the listener is what its guard decides on the new state.
\<close>

lemma step_listener_cases:
  "(deps (step g w e) = deps w \<and> listener (step g w e) = listener w) \<or>
   listener (step g w e) =
     (if db (app (step g w e)) \<noteq> None \<and> isAuthReady (app (step g w e)) \<and>
         truthy (userId (app (step g w e)))
      then Some \<lparr>query_path = collectionPath g, order_field = ''createdAt'', order_dir = Desc\<rparr>
      else None)"
proof (cases "deps (handle g w e) = deps w")
  case True
  then show ?thesis by (simp add: step_same_deps handle_listener)
next
  case False
  then have s: "step g w e = dataFetchEffect g (unsubscribe (handle g w e))"
    by (simp add: step_def Let_def)
  have "deps (step g w e) = deps (handle g w e)"
    by (simp add: s dataFetchEffect_deps)
  then have "db (app (step g w e)) = db (app (handle g w e))"
    and "isAuthReady (app (step g w e)) = isAuthReady (app (handle g w e))"
    and "userId (app (step g w e)) = userId (app (handle g w e))"
    by (simp_all add: deps_def)
  then show ?thesis
    by (simp add: s dataFetchEffect_listener)
qed

lemma step_gated: "gated w \<Longrightarrow> gated (step g w e)"
  using step_listener_cases [of g w e]
  by (auto simp: gated_def deps_def split: option.splits if_splits)

lemma run_gated: "gated w \<Longrightarrow> gated (run g w es)"
  by (induction es arbitrary: w) (simp_all add: step_gated)

lemma initial_gated: "gated initial_world"
  by (simp add: gated_def initial_world_def)

section \<open>Adding an entry\<close>

text \<open>The handler itself does not look at the item: with a database handle it sends it.\<close>

lemma handleAddItem_sends:
  "db (app w) \<noteq> None \<Longrightarrow>
     handleAddItem g w item =
       w\<lparr>app := (app w)\<lparr>loading := True\<rparr>,
         pending := pending w @
           [AddDoc (collectionPath g)
              \<lparr>description = description item, amount = amount item, type = type item,
               createdAt = ServerTimestamp, authorId = userId (app w)\<rparr>]\<rparr>"
  by (auto simp: handleAddItem_def)

lemma amount_min_positive: "(0 :: 'n::floor_ceiling) < amount_min"
  by (simp add: amount_min_def)

lemma refused_keeps_world:
  "checkValidity parseFloat f \<noteq> [] \<Longrightarrow>
     world_after (submitForm parseFloat ty g w f) = w \<and>
     fields_after (submitForm parseFloat ty g w f) = f \<and>
     reported (submitForm parseFloat ty g w f) \<noteq> Handed"
  by (simp add: submitForm_def)

lemma nonpositive_violates:
  fixes parseFloat :: "string \<Rightarrow> 'n::floor_ceiling"
  assumes "amount_text f = [] \<or> \<not> 0 < parseFloat (amount_text f)"
  shows "AmountMissing \<in> set (checkValidity parseFloat f) \<or>
         RangeUnderflow \<in> set (checkValidity parseFloat f)"
proof (cases "amount_text f = []")
  case True
  then show ?thesis by (simp add: checkValidity_def)
next
  case False
  with assms have "parseFloat (amount_text f) \<le> 0" by simp
  also have "(0 :: 'n) < amount_min" by (rule amount_min_positive)
  finally have "parseFloat (amount_text f) < amount_min" .
  with False show ?thesis by (simp add: checkValidity_def)
qed

text \<open>
  What reaches the handler through the form: non-empty texts, with an amount of at least
  one hundredth.
\<close>

lemma handed_amount_positive:
  fixes parseFloat :: "string \<Rightarrow> 'n::floor_ceiling"
  assumes "reported (submitForm parseFloat ty g w f) = Handed"
  shows "0 < parseFloat (amount_text f) \<and> amount_min \<le> parseFloat (amount_text f) \<and>
         world_after (submitForm parseFloat ty g w f) =
           handleAddItem g w
             \<lparr>description = description_text f, amount = parseFloat (amount_text f),
              type = ty\<rparr>"
proof -
  from assms have v: "checkValidity parseFloat f = []"
    by (auto simp: submitForm_def split: if_splits)
  then have d: "description_text f \<noteq> []" and a: "amount_text f \<noteq> []"
    by (auto simp: checkValidity_def split: if_splits)
  from v a have m: "amount_min \<le> parseFloat (amount_text f)"
    by (auto simp: checkValidity_def split: if_splits)
  with amount_min_positive [where 'n = 'n] have "0 < parseFloat (amount_text f)"
    by (rule less_le_trans)
  moreover from assms v d a
  have "world_after (submitForm parseFloat ty g w f) =
           handleAddItem g w
             \<lparr>description = description_text f, amount = parseFloat (amount_text f),
              type = ty\<rparr>"
    by (auto simp: submitForm_def handleSubmit_def split: if_splits)
  ultimately show ?thesis using m by simp
qed

text \<open>
  Claim C1. An add request whose amount is not a positive number (the amount text is empty,
  or the number it reads as is not above zero, such as 0 or -5) is refused before
  \<^verbatim>\<open>handleSubmit\<close> and \<^verbatim>\<open>handleAddItem\<close> run: the world is what it was, so no write
  is sent and no state is changed, and the fields keep their text. Where the form is
  rendered and its button enabled, the refusal is the validation failure of the amount
  input (a missing value, or a value under the minimum).
\<close>

theorem nonpositive_amount_refused:
  fixes parseFloat :: "string \<Rightarrow> 'n::floor_ceiling"
  assumes "amount_text f = [] \<or> \<not> 0 < parseFloat (amount_text f)"
  shows "world_after (submitForm parseFloat ty g w f) = w \<and>
         pending (world_after (submitForm parseFloat ty g w f)) = pending w \<and>
         fields_after (submitForm parseFloat ty g w f) = f \<and>
         reported (submitForm parseFloat ty g w f) \<noteq> Handed \<and>
         (forms_rendered w \<and> \<not> loading (app w) \<longrightarrow>
            reported (submitForm parseFloat ty g w f) = Invalid (checkValidity parseFloat f) \<and>
            (AmountMissing \<in> set (checkValidity parseFloat f) \<or>
             RangeUnderflow \<in> set (checkValidity parseFloat f)))"
proof -
  from assms nonpositive_violates [of f parseFloat]
  have v: "AmountMissing \<in> set (checkValidity parseFloat f) \<or>
           RangeUnderflow \<in> set (checkValidity parseFloat f)" by blast
  then have ne: "checkValidity parseFloat f \<noteq> []" by auto
  have "forms_rendered w \<and> \<not> loading (app w) \<longrightarrow>
          reported (submitForm parseFloat ty g w f) = Invalid (checkValidity parseFloat f)"
    using ne by (simp add: submitForm_def)
  with refused_keeps_world [OF ne, of ty g w] v show ?thesis by simp
qed

theorem nonpositive_amount_refused_witness:
  "\<not> 0 < read_amount ''-5'' \<and> \<not> 0 < read_amount ''0'' \<and>
   submitForm read_amount ''expense'' None ready_world
       \<lparr>description_text = ''Refund'', amount_text = ''-5''\<rparr> =
     \<lparr>fields_after = \<lparr>description_text = ''Refund'', amount_text = ''-5''\<rparr>,
      world_after = ready_world, reported = Invalid [RangeUnderflow]\<rparr> \<and>
   submitForm read_amount ''income'' None ready_world
       \<lparr>description_text = ''Nothing'', amount_text = ''0''\<rparr> =
     \<lparr>fields_after = \<lparr>description_text = ''Nothing'', amount_text = ''0''\<rparr>,
      world_after = ready_world, reported = Invalid [RangeUnderflow]\<rparr> \<and>
   pending (world_after (submitForm read_amount ''expense'' None ready_world
       \<lparr>description_text = ''Coffee'', amount_text = ''3.50''\<rparr>)) =
     [AddDoc ''artifacts/default-app-id/public/data/budget-items''
        \<lparr>description = ''Coffee'', amount = 3.5, type = ''expense'',
         createdAt = ServerTimestamp, authorId = Some ''u1''\<rparr>]"
proof -
  let ?a = "\<lparr>description_text = ''Refund'', amount_text = ''-5''\<rparr>"
  let ?b = "\<lparr>description_text = ''Nothing'', amount_text = ''0''\<rparr>"
  have ha: "amount_text ?a = [] \<or> \<not> 0 < read_amount (amount_text ?a)"
    and hb: "amount_text ?b = [] \<or> \<not> 0 < read_amount (amount_text ?b)"
    by (simp_all add: read_amount_def)
  have r: "forms_rendered ready_world \<and> \<not> loading (app ready_world)"
    by (simp add: forms_rendered_def ready_world_def)
  have ca: "checkValidity read_amount ?a = [RangeUnderflow]"
    and cb: "checkValidity read_amount ?b = [RangeUnderflow]"
    by (simp_all add: checkValidity_def read_amount_def amount_min_def amount_step_def
        stepMismatch_def)
  have c: "pending (world_after (submitForm read_amount ''expense'' None ready_world
       \<lparr>description_text = ''Coffee'', amount_text = ''3.50''\<rparr>)) =
     [AddDoc ''artifacts/default-app-id/public/data/budget-items''
        \<lparr>description = ''Coffee'', amount = 3.5, type = ''expense'',
         createdAt = ServerTimestamp, authorId = Some ''u1''\<rparr>]"
    by (simp add: submitForm_def checkValidity_def read_amount_def amount_min_def
        amount_step_def stepMismatch_def forms_rendered_def handleSubmit_def
        handleAddItem_def ready_world_def collectionPath_def appId_def)
  have "submitForm read_amount ''expense'' None ready_world ?a =
          \<lparr>fields_after = ?a, world_after = ready_world, reported = Invalid [RangeUnderflow]\<rparr>"
    using ha r ca
      nonpositive_amount_refused [of ?a read_amount "''expense''" None ready_world]
    by (intro submission.equality) simp_all
  moreover
  have "submitForm read_amount ''income'' None ready_world ?b =
          \<lparr>fields_after = ?b, world_after = ready_world, reported = Invalid [RangeUnderflow]\<rparr>"
    using hb r cb
      nonpositive_amount_refused [of ?b read_amount "''income''" None ready_world]
    by (intro submission.equality) simp_all
  moreover have "\<not> 0 < read_amount ''-5''" and "\<not> 0 < read_amount ''0''"
    by (simp_all add: read_amount_def)
  ultimately show ?thesis using c by blast
qed

lemma handle_error_persists:
  "error (app w) \<noteq> None \<Longrightarrow> error (app (handle g w e)) \<noteq> None"
  by (cases e)
     (auto simp: handle_def initEffect_def onAuthStateChanged_callback_def
        handleAddItem_def handleDeleteItem_def resume_def handleAddItem_settled_def
        handleDeleteItem_settled_def signIn_settled_def onSnapshot_error_def
        onSnapshot_next_def
        split: option.splits init_result.splits request.splits outcome.splits)

lemma step_error_persists:
  "error (app w) \<noteq> None \<Longrightarrow> error (app (step g w e)) \<noteq> None"
  using handle_error_persists [of w g e]
  by (simp add: step_def Let_def dataFetchEffect_def unsubscribe_def)

lemma run_error_persists:
  "error (app w) \<noteq> None \<Longrightarrow> error (app (run g w es)) \<noteq> None"
proof (induction es arbitrary: w)
  case Nil
  then show ?case by simp
next
  case (Cons e es)
  from Cons.prems have "error (app (step g w e)) \<noteq> None"
    by (rule step_error_persists)
  then have "error (app (run g (step g w e) es)) \<noteq> None"
    by (rule Cons.IH)
  then show ?case by simp
qed

text \<open>
  Claim C6, as the program has it. When the \<^verbatim>\<open>addDoc\<close> of an add is rejected by the
  store, the handler catches the failure and reports it in the error state
  (\<open>Could not add the item.\<close>), clears the loading flag and takes the request out of the
  pending ones; it sends nothing more, and the mirror, the handles, the user and the
  listener are what they were. No later event clears the error state, and with an error
  the component renders the message alone: a submission of either form does nothing, so
  the add cannot be tried again from the forms.
\<close>

theorem add_failure_reported_flag_cleared:
  fixes parseFloat :: "string \<Rightarrow> 'n::floor_ceiling"
  assumes "k < length (pending w)" and "pending w ! k = AddDoc p d"
  shows "step g w (Settled k (Rejected err)) =
           w\<lparr>app := (app w)\<lparr>error := Some ''Could not add the item.'', loading := False\<rparr>,
             pending := remove_nth k (pending w),
             console := console w @ [''Error adding document: '' @ err]\<rparr> \<and>
         error (app (run g (step g w (Settled k (Rejected err))) es)) \<noteq> None \<and>
         submitForm parseFloat ty g (run g (step g w (Settled k (Rejected err))) es) f =
           \<lparr>fields_after = f,
            world_after = run g (step g w (Settled k (Rejected err))) es,
            reported = NotRendered\<rparr>"
proof -
  have s: "step g w (Settled k (Rejected err)) =
           w\<lparr>app := (app w)\<lparr>error := Some ''Could not add the item.'', loading := False\<rparr>,
             pending := remove_nth k (pending w),
             console := console w @ [''Error adding document: '' @ err]\<rparr>"
    using assms by (simp add: step_Settled_AddDoc handleAddItem_settled_def)
  then have "error (app (step g w (Settled k (Rejected err)))) \<noteq> None"
    by simp
  then have e: "error (app (run g (step g w (Settled k (Rejected err))) es)) \<noteq> None"
    by (rule run_error_persists)
  then have "submitForm parseFloat ty g (run g (step g w (Settled k (Rejected err))) es) f =
           \<lparr>fields_after = f,
            world_after = run g (step g w (Settled k (Rejected err))) es,
            reported = NotRendered\<rparr>"
    by (simp add: submitForm_def forms_rendered_def)
  with s e show ?thesis by blast
qed

theorem add_failure_reported_flag_cleared_witness:
  "error (app (run None ready_world
      [AddItemCalled coffee, Settled 0 (Rejected ''unavailable'')])) =
     Some ''Could not add the item.'' \<and>
   loading (app (run None ready_world
      [AddItemCalled coffee, Settled 0 (Rejected ''unavailable'')])) = False \<and>
   items (app (run None ready_world
      [AddItemCalled coffee, Settled 0 (Rejected ''unavailable'')])) = [groceries, paycheck] \<and>
   pending (run None ready_world
      [AddItemCalled coffee, Settled 0 (Rejected ''unavailable'')]) = [] \<and>
   reported (submitForm read_amount ''expense'' None
      (run None ready_world
         [AddItemCalled coffee, Settled 0 (Rejected ''unavailable''),
          SnapshotArrived [paycheck_doc]])
      \<lparr>description_text = ''Coffee'', amount_text = ''3.50''\<rparr>) = NotRendered"
proof -
  let ?w = "handleAddItem None ready_world coffee"
  let ?d = "\<lparr>description = ''Coffee'', amount = 3.5 :: real, type = ''expense'',
             createdAt = ServerTimestamp, authorId = Some ''u1''\<rparr>"
  let ?f = "\<lparr>description_text = ''Coffee'', amount_text = ''3.50''\<rparr>"
  have k: "0 < length (pending ?w)"
    and p: "pending ?w ! 0 = AddDoc (collectionPath None) ?d"
    by (simp_all add: handleAddItem_def ready_world_def coffee_def)
  note t = add_failure_reported_flag_cleared [OF k p, of None "''unavailable''"
      "[SnapshotArrived [paycheck_doc]]" read_amount "''expense''" ?f]
  from t have a: "step None ?w (Settled 0 (Rejected ''unavailable'')) =
      ?w\<lparr>app := (app ?w)\<lparr>error := Some ''Could not add the item.'', loading := False\<rparr>,
         pending := remove_nth 0 (pending ?w),
         console := console ?w @ [''Error adding document: '' @ ''unavailable'']\<rparr>"
    by blast
  from t have c: "submitForm read_amount ''expense'' None
      (run None (step None ?w (Settled 0 (Rejected ''unavailable'')))
         [SnapshotArrived [paycheck_doc]]) ?f =
      \<lparr>fields_after = ?f,
       world_after = run None (step None ?w (Settled 0 (Rejected ''unavailable'')))
         [SnapshotArrived [paycheck_doc]],
       reported = NotRendered\<rparr>"
    by blast
  have b: "reported (submitForm read_amount ''expense'' None
      (run None (step None ?w (Settled 0 (Rejected ''unavailable'')))
         [SnapshotArrived [paycheck_doc]]) ?f) = NotRendered"
    unfolding c by simp
  have r3: "run None ready_world
         [AddItemCalled coffee, Settled 0 (Rejected ''unavailable''),
          SnapshotArrived [paycheck_doc]] =
        run None (step None ?w (Settled 0 (Rejected ''unavailable'')))
         [SnapshotArrived [paycheck_doc]]"
    by (simp add: step_AddItemCalled)
  have r2: "run None ready_world
         [AddItemCalled coffee, Settled 0 (Rejected ''unavailable'')] =
        step None ?w (Settled 0 (Rejected ''unavailable''))"
    by (simp add: step_AddItemCalled)
  have x: "error (app (run None ready_world
      [AddItemCalled coffee, Settled 0 (Rejected ''unavailable'')])) =
     Some ''Could not add the item.'' \<and>
   loading (app (run None ready_world
      [AddItemCalled coffee, Settled 0 (Rejected ''unavailable'')])) = False \<and>
   items (app (run None ready_world
      [AddItemCalled coffee, Settled 0 (Rejected ''unavailable'')])) = [groceries, paycheck] \<and>
   pending (run None ready_world
      [AddItemCalled coffee, Settled 0 (Rejected ''unavailable'')]) = []"
    unfolding r2 a by (simp add: handleAddItem_def ready_world_def remove_nth_def)
  have y: "reported (submitForm read_amount ''expense'' None
      (run None ready_world
         [AddItemCalled coffee, Settled 0 (Rejected ''unavailable''),
          SnapshotArrived [paycheck_doc]]) ?f) = NotRendered"
    unfolding r3 by (rule b)
  from x y show ?thesis by blast
qed

text \<open>
  The claim as the specification words it fails: after the rejection the local state is not
  what it was (the error state is set) and the forms are gone, so no retry can be made from
  them.
\<close>

theorem add_failure_counterexample:
  "error (app ready_world) = None \<and>
   forms_rendered ready_world = True \<and>
   error (app (run None ready_world
      [AddItemCalled coffee, Settled 0 (Rejected ''unavailable'')])) =
     Some ''Could not add the item.'' \<and>
   forms_rendered (run None ready_world
      [AddItemCalled coffee, Settled 0 (Rejected ''unavailable'')]) = False \<and>
   reported (submitForm read_amount ''expense'' None
      (run None ready_world
         [AddItemCalled coffee, Settled 0 (Rejected ''unavailable'')])
      \<lparr>description_text = ''Coffee'', amount_text = ''3.50''\<rparr>) = NotRendered"
  by (simp add: step_def handle_def handleAddItem_def resume_def handleAddItem_settled_def
      remove_nth_def deps_def Let_def ready_world_def coffee_def forms_rendered_def
      submitForm_def)

text \<open>
  Claim C7. No handler but the callback of the subscription writes the mirror: over any
  sequence of events with no snapshot among them the items are what they were, in
  particular over an add that the store acknowledges; and a snapshot that reaches a
  registered listener replaces the items by the documents it carries.
\<close>

theorem only_snapshots_write_items:
  "((\<forall>e \<in> set es. \<not> is_snapshot e) \<longrightarrow> items (app (run g w es)) = items (app w)) \<and>
   items (app (run g w [AddItemCalled item, Settled (length (pending w)) (Resolved r)])) =
     items (app w) \<and>
   (listener w \<noteq> None \<longrightarrow>
      items (app (step g w (SnapshotArrived docs))) = map toItem docs)"
proof -
  have "\<forall>e \<in> set [AddItemCalled item, Settled (length (pending w)) (Resolved r)].
          \<not> is_snapshot e"
    by (simp add: is_snapshot_def)
  then have "items (app (run g w
      [AddItemCalled item, Settled (length (pending w)) (Resolved r)])) = items (app w)"
    by (rule run_items)
  moreover have "listener w \<noteq> None \<longrightarrow>
      items (app (step g w (SnapshotArrived docs))) = map toItem docs"
    by (simp add: step_SnapshotArrived onSnapshot_next_def)
  ultimately show ?thesis
    using run_items [of es g w] by blast
qed

theorem only_snapshots_write_items_witness:
  "\<not> is_snapshot (AddItemCalled refund) \<and>
   \<not> is_snapshot (Settled 0 (Resolved Success) :: real event) \<and>
   \<not> is_snapshot (DeleteItemCalled ''b'' :: real event) \<and>
   items (app (run None ready_world
      [AddItemCalled refund, Settled 0 (Resolved Success), DeleteItemCalled ''b''])) =
     [groceries, paycheck] \<and>
   listener ready_world \<noteq> None \<and>
   items (app (step None ready_world (SnapshotArrived [paycheck_doc]))) = [paycheck]"
  using only_snapshots_write_items [of
      "[AddItemCalled refund, Settled 0 (Resolved Success), DeleteItemCalled ''b'']"
      None ready_world refund Success "[paycheck_doc]"]
  by (simp add: is_snapshot_def)
     (simp add: ready_world_def toItem_def paycheck_doc_def paycheck_def)

section \<open>The loading flag\<close>

lemma delete_event_step:
  "delete_event w e \<Longrightarrow>
     loading (app (step g w e)) = loading (app w) \<and>
     filter is_AddDoc (pending (step g w e)) = filter is_AddDoc (pending w)"
proof (cases e)
  case (DeleteItemCalled i)
  then show ?thesis
    by (simp add: step_DeleteItemCalled handleDeleteItem_def is_AddDoc_def)
next
  case (Settled k out)
  assume "delete_event w e"
  with Settled have k: "k < length (pending w)" and d: "is_DeleteDoc (pending w ! k)"
    by (simp_all add: delete_event_def)
  from d obtain p where p: "pending w ! k = DeleteDoc p"
    by (cases "pending w ! k") (simp_all add: is_DeleteDoc_def)
  have "\<not> is_AddDoc (pending w ! k)"
    using p by (simp add: is_AddDoc_def)
  then have "filter is_AddDoc (remove_nth k (pending w)) = filter is_AddDoc (pending w)"
    using k unfolding remove_nth_def
    by (metis append_take_drop_id Cons_nth_drop_Suc filter.simps(2) filter_append)
  then show ?thesis
    using Settled k p
    by (simp add: step_Settled_DeleteDoc handleDeleteItem_settled_def split: outcome.splits)
qed (simp_all add: delete_event_def)

lemma only_deletes_run:
  "only_deletes g w es \<Longrightarrow>
     loading (app (run g w es)) = loading (app w) \<and>
     filter is_AddDoc (pending (run g w es)) = filter is_AddDoc (pending w)"
  by (induction es arbitrary: w) (simp_all add: delete_event_step)

text \<open>
  Claim C4, as the program has it. An add raises the loading flag when it sends its write,
  and the flag stays up, with the write pending, over any delete traffic that follows (calls
  of the delete handler and the settling of deletes). A delete never changes the flag,
  neither when it is sent nor when it settles: a delete in flight is not reported.
\<close>

theorem loading_while_add_in_flight:
  "(db (app w) \<noteq> None \<and> only_deletes g (handleAddItem g w item) es \<longrightarrow>
      loading (app (run g (handleAddItem g w item) es)) \<and>
      AddDoc (collectionPath g)
        \<lparr>description = description item, amount = amount item, type = type item,
         createdAt = ServerTimestamp, authorId = userId (app w)\<rparr>
        \<in> set (pending (run g (handleAddItem g w item) es))) \<and>
   (only_deletes g w es \<longrightarrow> loading (app (run g w es)) = loading (app w))"
proof -
  let ?rq = "AddDoc (collectionPath g)
        \<lparr>description = description item, amount = amount item, type = type item,
         createdAt = ServerTimestamp, authorId = userId (app w)\<rparr>"
  have "loading (app (run g (handleAddItem g w item) es)) \<and>
        ?rq \<in> set (pending (run g (handleAddItem g w item) es))"
    if db: "db (app w) \<noteq> None" and od: "only_deletes g (handleAddItem g w item) es"
  proof -
    from db have l: "loading (app (handleAddItem g w item))"
      and p: "?rq \<in> set (filter is_AddDoc (pending (handleAddItem g w item)))"
      by (auto simp: handleAddItem_def is_AddDoc_def)
    from only_deletes_run [OF od] l p
    have "loading (app (run g (handleAddItem g w item) es))"
      and "?rq \<in> set (filter is_AddDoc (pending (run g (handleAddItem g w item) es)))"
      by simp_all
    then show ?thesis by simp
  qed
  then show ?thesis
    using only_deletes_run by blast
qed

theorem loading_while_add_in_flight_witness:
  "db (app ready_world) \<noteq> None \<and>
   only_deletes None (handleAddItem None ready_world refund)
     [DeleteItemCalled ''b'', Settled 1 (Resolved Success)] \<and>
   loading (app (run None (handleAddItem None ready_world refund)
     [DeleteItemCalled ''b'', Settled 1 (Resolved Success)])) \<and>
   only_deletes None ready_world [DeleteItemCalled ''b'', Settled 0 (Resolved Success)] \<and>
   loading (app (run None ready_world
     [DeleteItemCalled ''b'', Settled 0 (Resolved Success)])) = False"
proof -
  have h: "db (app ready_world) \<noteq> None"
    by (simp add: ready_world_def)
  have a: "only_deletes None (handleAddItem None ready_world refund)
     [DeleteItemCalled ''b'', Settled 1 (Resolved Success)]"
    by (simp add: delete_event_def step_DeleteItemCalled)
       (simp add: handleDeleteItem_def handleAddItem_def ready_world_def is_DeleteDoc_def)
  have b: "only_deletes None ready_world
     [DeleteItemCalled ''b'', Settled 0 (Resolved Success)]"
    by (simp add: delete_event_def step_DeleteItemCalled)
       (simp add: handleDeleteItem_def ready_world_def is_DeleteDoc_def)
  have c: "loading (app ready_world) = False"
    by (simp add: ready_world_def)
  show ?thesis
    using h a b c
      loading_while_add_in_flight [of ready_world None refund
        "[DeleteItemCalled ''b'', Settled 1 (Resolved Success)]"]
      loading_while_add_in_flight [of ready_world None refund
        "[DeleteItemCalled ''b'', Settled 0 (Resolved Success)]"]
    by simp
qed

text \<open>
  The claim as the specification words it fails for a delete: the request is in flight and
  the loading flag is down.
\<close>

theorem delete_in_flight_counterexample:
  "pending (handleDeleteItem None ready_world ''b'') =
     [DeleteDoc ''artifacts/default-app-id/public/data/budget-items/b''] \<and>
   loading (app (handleDeleteItem None ready_world ''b'')) = False"
  by (simp add: handleDeleteItem_def ready_world_def docPath_def appId_def)

section \<open>The subscription\<close>

text \<open>
  Claim C5, as the program has it. The subscription is gated on the handshake: when the
  second effect runs, a listener is registered exactly when the database handle is set, the
  handshake is over and a user identifier is there; and in every state the component
  reaches, a registered listener comes with all three.
\<close>

theorem subscription_gated_on_identity:
  "listener (dataFetchEffect g (unsubscribe w)) =
     (if db (app w) \<noteq> None \<and> isAuthReady (app w) \<and> truthy (userId (app w))
      then Some \<lparr>query_path = collectionPath g, order_field = ''createdAt'', order_dir = Desc\<rparr>
      else None) \<and>
   (listener (run g initial_world es) \<noteq> None \<longrightarrow>
      db (app (run g initial_world es)) \<noteq> None \<and>
      isAuthReady (app (run g initial_world es)) \<and>
      truthy (userId (app (run g initial_world es))))"
  using run_gated [OF initial_gated, of g es]
  by (auto simp: dataFetchEffect_listener gated_def split: option.splits)

theorem subscription_gated_on_identity_witness:
  "listener (run None (initial_world :: real world)
      [Mounted (Some ''{}'') InitOk, AuthStateChanged (Some ''u1'')]) =
     Some \<lparr>query_path = ''artifacts/default-app-id/public/data/budget-items'',
           order_field = ''createdAt'', order_dir = Desc\<rparr> \<and>
   db (app (run None (initial_world :: real world)
      [Mounted (Some ''{}'') InitOk, AuthStateChanged (Some ''u1'')])) \<noteq> None \<and>
   isAuthReady (app (run None (initial_world :: real world)
      [Mounted (Some ''{}'') InitOk, AuthStateChanged (Some ''u1'')])) \<and>
   truthy (userId (app (run None (initial_world :: real world)
      [Mounted (Some ''{}'') InitOk, AuthStateChanged (Some ''u1'')])))"
proof -
  have l: "listener (run None (initial_world :: real world)
      [Mounted (Some ''{}'') InitOk, AuthStateChanged (Some ''u1'')]) =
     Some \<lparr>query_path = ''artifacts/default-app-id/public/data/budget-items'',
           order_field = ''createdAt'', order_dir = Desc\<rparr>"
    by (simp add: step_def handle_def initEffect_def initial_world_def initial_state_def
        deps_def dataFetchEffect_def unsubscribe_def onAuthStateChanged_callback_def
        truthy_def Let_def collectionPath_def appId_def)
  then have n: "listener (run None (initial_world :: real world)
      [Mounted (Some ''{}'') InitOk, AuthStateChanged (Some ''u1'')]) \<noteq> None"
    by (simp del: run.simps)
  have "db (app (run None (initial_world :: real world)
      [Mounted (Some ''{}'') InitOk, AuthStateChanged (Some ''u1'')])) \<noteq> None \<and>
   isAuthReady (app (run None (initial_world :: real world)
      [Mounted (Some ''{}'') InitOk, AuthStateChanged (Some ''u1'')])) \<and>
   truthy (userId (app (run None (initial_world :: real world)
      [Mounted (Some ''{}'') InitOk, AuthStateChanged (Some ''u1'')])))"
    using subscription_gated_on_identity [of None "initial_world :: real world"
        "[Mounted (Some ''{}'') InitOk, AuthStateChanged (Some ''u1'')]"] n
    by blast
  with l show ?thesis by blast
qed

text \<open>
  The claim as the specification words it fails: once the handshake has failed (the
  anonymous sign-in is rejected), the database handle is set, the handshake is over, no user
  identifier is there, and no listener is registered.
\<close>

theorem no_subscription_without_user_counterexample:
  "listener (run None (initial_world :: real world)
      [Mounted (Some ''{}'') InitOk, AuthStateChanged None,
       Settled 0 (Rejected ''network'')]) = None \<and>
   db (app (run None (initial_world :: real world)
      [Mounted (Some ''{}'') InitOk, AuthStateChanged None,
       Settled 0 (Rejected ''network'')])) = Some Firestore \<and>
   isAuthReady (app (run None (initial_world :: real world)
      [Mounted (Some ''{}'') InitOk, AuthStateChanged None,
       Settled 0 (Rejected ''network'')])) = True \<and>
   userId (app (run None (initial_world :: real world)
      [Mounted (Some ''{}'') InitOk, AuthStateChanged None,
       Settled 0 (Rejected ''network'')])) = None"
  by (simp add: step_def handle_def initEffect_def initial_world_def initial_state_def
      deps_def dataFetchEffect_def unsubscribe_def onAuthStateChanged_callback_def
      resume_def signIn_settled_def remove_nth_def truthy_def Let_def)

lemma createdAt_toItem: "createdAt (toItem d) = createdAt (doc_data d)"
  by (simp add: toItem_def)

lemma step_mirror_ok:
  assumes "mirror_ok w" and "honoured w e"
  shows "mirror_ok (step g w e)"
proof -
  have g: "gated (step g w e)"
    using assms(1) by (simp add: mirror_ok_def step_gated)
  have "sorted_wrt (\<lambda>a b. b \<le> a) (map createdAt (items (app (step g w e))))"
  proof (cases "is_snapshot e")
    case False
    then show ?thesis
      using assms(1) by (simp add: step_items mirror_ok_def)
  next
    case True
    then obtain docs where e: "e = SnapshotArrived docs"
      by (cases e) (simp_all add: is_snapshot_def)
    show ?thesis
    proof (cases "listener w")
      case None
      then show ?thesis
        using assms(1) by (simp add: e step_SnapshotArrived mirror_ok_def)
    next
      case (Some q)
      with assms(1) have "order_field q = ''createdAt''" and "order_dir q = Desc"
        by (simp_all add: mirror_ok_def gated_def)
      with assms(2) Some e
      have "sorted_wrt (\<lambda>a b. b \<le> a) (map (\<lambda>d. createdAt (doc_data d)) docs)"
        by (simp add: honoured_def in_query_order_def)
      then show ?thesis
        using Some
        by (simp add: e step_SnapshotArrived onSnapshot_next_def comp_def createdAt_toItem)
    qed
  qed
  with g show ?thesis
    by (simp add: mirror_ok_def)
qed

lemma run_mirror_ok:
  "mirror_ok w \<Longrightarrow> store_honours_query g w es \<Longrightarrow> mirror_ok (run g w es)"
  by (induction es arbitrary: w) (simp_all add: step_mirror_ok)

lemma initial_mirror_ok: "mirror_ok initial_world"
  by (simp add: mirror_ok_def initial_gated) (simp add: initial_world_def initial_state_def)

text \<open>
  Claim C8. The program asks the store for the order (\<^verbatim>\<open>createdAt\<close>, descending) and
  does not sort itself. As long as every snapshot the store delivers comes in the order of
  the query that is registered, the mirror is sorted by \<^verbatim>\<open>createdAt\<close> descending after
  every event: of two entries with different times, the later one stands first.
\<close>

theorem snapshot_newest_first:
  assumes "store_honours_query g initial_world es"
    and "i < length (items (app (run g initial_world es)))"
    and "j < length (items (app (run g initial_world es)))"
    and "createdAt (items (app (run g initial_world es)) ! j)
           < createdAt (items (app (run g initial_world es)) ! i)"
  shows "i < j"
proof (rule ccontr)
  let ?S = "items (app (run g initial_world es))"
  assume "\<not> i < j"
  then have "j < i \<or> j = i" by arith
  moreover have "j \<noteq> i" using assms(4) by auto
  ultimately have ji: "j < i" by simp
  have "sorted_wrt (\<lambda>a b. b \<le> a) (map createdAt ?S)"
    using run_mirror_ok [OF initial_mirror_ok assms(1)] by (simp add: mirror_ok_def)
  then have "createdAt (?S ! i) \<le> createdAt (?S ! j)"
    using ji assms(2) by (simp add: sorted_wrt_iff_nth_less)
  with assms(4) show False by simp
qed

theorem snapshot_newest_first_witness:
  "store_honours_query None (initial_world :: real world)
     [Mounted (Some ''{}'') InitOk, AuthStateChanged (Some ''u1''),
      SnapshotArrived [groceries_doc, paycheck_doc]] \<and>
   items (app (run None (initial_world :: real world)
     [Mounted (Some ''{}'') InitOk, AuthStateChanged (Some ''u1''),
      SnapshotArrived [groceries_doc, paycheck_doc]])) = [groceries, paycheck] \<and>
   createdAt paycheck < createdAt groceries \<and>
   (0 :: nat) < 1"
proof -
  let ?es = "[Mounted (Some ''{}'') InitOk, AuthStateChanged (Some ''u1''),
      SnapshotArrived [groceries_doc, paycheck_doc]] :: real event list"
  let ?w = "initial_world :: real world"
  have h: "store_honours_query None ?w ?es"
    by (simp add: step_def handle_def initEffect_def initial_world_def initial_state_def
        deps_def dataFetchEffect_def unsubscribe_def onAuthStateChanged_callback_def
        truthy_def Let_def honoured_def in_query_order_def
        groceries_doc_def paycheck_doc_def)
  have s: "items (app (run None ?w ?es)) = [groceries, paycheck]"
    by (simp add: step_def handle_def initEffect_def initial_world_def initial_state_def
        deps_def dataFetchEffect_def unsubscribe_def onAuthStateChanged_callback_def
        truthy_def Let_def onSnapshot_next_def toItem_def
        groceries_doc_def paycheck_doc_def groceries_def paycheck_def)
  have t: "createdAt paycheck < createdAt groceries"
    by (simp add: groceries_def paycheck_def)
  have "(0 :: nat) < 1"
    using snapshot_newest_first [OF h, of 0 1] s t by simp
  with h s t show ?thesis by simp
qed

section \<open>Deleting an entry\<close>

lemma docPath_collectionPath: "docPath g i = collectionPath g @ ''/'' @ i"
  by (simp add: docPath_def collectionPath_def)

lemma set_store_snapshot:
  "set (store_snapshot q st) = snd ` {e \<in> set st. fst e = query_path q}"
  by (auto simp: store_snapshot_def Let_def split: direction.splits)

text \<open>The store of this model keeps the order a query asks for.\<close>

lemma store_snapshot_in_query_order: "in_query_order q (store_snapshot q st)"
  by (simp add: in_query_order_def store_snapshot_def Let_def sorted_wrt_rev rev_map [symmetric]
      split: direction.splits)

lemma system_step_delete_called:
  "db (app (client s)) \<noteq> None \<Longrightarrow>
     system_step g s (Client (DeleteItemCalled i)) =
       s\<lparr>client := (client s)\<lparr>pending := pending (client s) @ [DeleteDoc (docPath g i)]\<rparr>\<rparr>"
  by (auto simp: system_step_def step_DeleteItemCalled handleDeleteItem_def)

lemma step_delete_resolved:
  "step g (w\<lparr>pending := pending w @ [DeleteDoc p]\<rparr>) (Settled (length (pending w)) (Resolved r)) = w"
  by (subst step_Settled_DeleteDoc [where p = p])
     (simp_all add: handleDeleteItem_settled_def remove_nth_append_last)

lemma step_delete_rejected:
  "step g (w\<lparr>pending := pending w @ [DeleteDoc p]\<rparr>) (Settled (length (pending w)) (Rejected err)) =
     w\<lparr>app := (app w)\<lparr>error := Some ''Could not delete the item.''\<rparr>,
       console := console w @ [''Error deleting document: '' @ err]\<rparr>"
  by (subst step_Settled_DeleteDoc [where p = p])
     (simp_all add: handleDeleteItem_settled_def remove_nth_append_last)

lemma system_delete_acknowledged:
  "system_step g
     (s\<lparr>client := (client s)\<lparr>pending := pending (client s) @ [DeleteDoc p]\<rparr>\<rparr>)
     (Acknowledged (length (pending (client s))) a t) =
   \<lparr>client = client s, remote = filter (\<lambda>e. document_path e \<noteq> p) (remote s)\<rparr>"
  by (simp add: system_step_def store_apply_def step_delete_resolved)

text \<open>
  Claim C9. With the database handle set, a delete of a document identifier sends one
  \<^verbatim>\<open>deleteDoc\<close> for the path of that document in the collection the component listens to.
  Of two such deletes in sequence that the store acknowledges, the first removes the
  document (and no other), the second is answered not-found; the handler takes either
  answer as the end of the matter: the component is what it was before the calls, with no
  error. A rejection does not escape the handler either: it is caught and reported in the
  error state. The component does not touch its mirror; the next snapshot the store
  delivers is without the entry. (The store holds documents of the shape this program
  writes, with no \<^verbatim>\<open>id\<close> among their data.)
\<close>

theorem delete_twice:
  assumes "db (app (client s)) \<noteq> None"
    and "valid_id i"
    and "listener (client s) = Some q"
    and "query_path q = collectionPath g"
    and "\<forall>e \<in> set (remote s). own_id (snd e) = None"
  shows "client (system_step g s (Client (DeleteItemCalled i))) =
           (client s)\<lparr>pending := pending (client s) @
              [DeleteDoc (''artifacts/'' @ (case g of Some a \<Rightarrow> a | None \<Rightarrow> ''default-app-id'')
                          @ ''/public/data/budget-items/'' @ i)]\<rparr> \<and>
         system_run g s
           [Client (DeleteItemCalled i), Acknowledged (length (pending (client s))) a1 t1,
            Client (DeleteItemCalled i), Acknowledged (length (pending (client s))) a2 t2] =
           \<lparr>client = client s,
            remote = filter (\<lambda>e. document_path e \<noteq> query_path q @ ''/'' @ i) (remote s)\<rparr> \<and>
         snd (store_apply (DeleteDoc (docPath g i)) a2 t2
                (remote (system_run g s
                   [Client (DeleteItemCalled i),
                    Acknowledged (length (pending (client s))) a1 t1]))) = NotFound \<and>
         client (system_run g s
           [Client (DeleteItemCalled i),
            Client (Settled (length (pending (client s))) (Rejected err))]) =
           (client s)\<lparr>app := (app (client s))\<lparr>error := Some ''Could not delete the item.''\<rparr>,
                      console := console (client s) @ [''Error deleting document: '' @ err]\<rparr> \<and>
         i \<notin> id ` set (items (app (client (system_run g s
           [Client (DeleteItemCalled i), Acknowledged (length (pending (client s))) a1 t1,
            Client (DeleteItemCalled i), Acknowledged (length (pending (client s))) a2 t2,
            Delivered]))))"
proof -
  let ?p = "docPath g i"
  let ?n = "length (pending (client s))"
  let ?st = "filter (\<lambda>e. document_path e \<noteq> ?p) (remote s)"
  let ?s1 = "s\<lparr>client := (client s)\<lparr>pending := pending (client s) @ [DeleteDoc ?p]\<rparr>\<rparr>"
  let ?s2 = "\<lparr>client = client s, remote = ?st\<rparr>"
  let ?s3 = "\<lparr>client = (client s)\<lparr>pending := pending (client s) @ [DeleteDoc ?p]\<rparr>,
             remote = ?st\<rparr>"
  have path: "?p = ''artifacts/'' @ (case g of Some a \<Rightarrow> a | None \<Rightarrow> ''default-app-id'')
                          @ ''/public/data/budget-items/'' @ i"
    by (simp add: docPath_def appId_def)
  have qpath: "query_path q @ ''/'' @ i = ?p"
    using assms(4) by (simp add: docPath_collectionPath)
  have c1: "system_step g s (Client (DeleteItemCalled i)) = ?s1"
    using assms(1) by (rule system_step_delete_called)
  have a1: "system_step g ?s1 (Acknowledged ?n a t) = ?s2" for a t
    by (rule system_delete_acknowledged)
  have db2: "db (app (client ?s2)) \<noteq> None"
    using assms(1) by simp
  have c2: "system_step g ?s2 (Client (DeleteItemCalled i)) = ?s3"
    using system_step_delete_called [OF db2, of g i] by simp
  have a2: "system_step g ?s3 (Acknowledged ?n a t) = ?s2" for a t
    using system_delete_acknowledged [of g ?s2 ?p a t] by simp
  have four: "system_run g s
           [Client (DeleteItemCalled i), Acknowledged ?n a1 t1,
            Client (DeleteItemCalled i), Acknowledged ?n a2 t2] = ?s2"
    by (simp add: c1 a1 c2 a2)
  have two: "system_run g s [Client (DeleteItemCalled i), Acknowledged ?n a1 t1] = ?s2"
    by (simp add: c1 a1)
  have nf: "snd (store_apply (DeleteDoc ?p) a2 t2 ?st) = NotFound"
    by (auto simp: store_apply_def)
  have rej: "client (system_run g s
           [Client (DeleteItemCalled i), Client (Settled ?n (Rejected err))]) =
           (client s)\<lparr>app := (app (client s))\<lparr>error := Some ''Could not delete the item.''\<rparr>,
                      console := console (client s) @ [''Error deleting document: '' @ err]\<rparr>"
    by (simp add: c1) (simp add: system_step_def step_delete_rejected)
  have del: "system_step g ?s2 Delivered =
               ?s2\<lparr>client := onSnapshot_next (client s) (store_snapshot q ?st)\<rparr>"
    using assms(3) by (simp add: system_step_def step_SnapshotArrived)
  have absent: "i \<notin> id ` set (map toItem (store_snapshot q ?st))"
  proof
    assume "i \<in> id ` set (map toItem (store_snapshot q ?st))"
    then obtain d where d: "d \<in> set (store_snapshot q ?st)" and i: "id (toItem d) = i"
      by auto
    from d obtain e where e: "e \<in> set ?st" and q: "fst e = query_path q" and s: "snd e = d"
      by (auto simp: set_store_snapshot)
    from e have r: "e \<in> set (remote s)" and np: "document_path e \<noteq> ?p"
      by simp_all
    from r assms(5) s have "own_id d = None" by auto
    with i have "doc_id d = i" by (simp add: toItem_def)
    with q s assms(4) have "document_path e = ?p"
      by (simp add: document_path_def docPath_collectionPath)
    with np show False by contradiction
  qed
  have five: "i \<notin> id ` set (items (app (client (system_run g s
           [Client (DeleteItemCalled i), Acknowledged ?n a1 t1,
            Client (DeleteItemCalled i), Acknowledged ?n a2 t2, Delivered]))))"
    using absent by (simp add: c1 a1 c2 a2 del onSnapshot_next_def del: set_map)
  show ?thesis
    unfolding qpath two using c1 four nf rej five path by simp
qed

theorem delete_twice_witness:
  "db (app (client ready_system)) \<noteq> None \<and> valid_id ''b'' \<and>
   own_id paycheck_doc = None \<and> own_id groceries_doc = None \<and>
   ''b'' \<in> id ` set (items (app (client ready_system))) \<and>
   client (system_step None ready_system (Client (DeleteItemCalled ''b''))) =
     ready_world\<lparr>pending :=
        [DeleteDoc ''artifacts/default-app-id/public/data/budget-items/b'']\<rparr> \<and>
   system_run None ready_system
     [Client (DeleteItemCalled ''b''), Acknowledged 0 ''x'' 7,
      Client (DeleteItemCalled ''b''), Acknowledged 0 ''y'' 8] =
     \<lparr>client = ready_world,
      remote = [(''artifacts/default-app-id/public/data/budget-items'', paycheck_doc)]\<rparr> \<and>
   ''b'' \<notin> id ` set (items (app (client (system_run None ready_system
     [Client (DeleteItemCalled ''b''), Acknowledged 0 ''x'' 7,
      Client (DeleteItemCalled ''b''), Acknowledged 0 ''y'' 8, Delivered]))))"
proof -
  let ?q = "\<lparr>query_path = ''artifacts/default-app-id/public/data/budget-items'',
             order_field = ''createdAt'', order_dir = Desc\<rparr>"
  have h1: "db (app (client ready_system)) \<noteq> None"
    and h2: "valid_id ''b''"
    and h3: "listener (client ready_system) = Some ?q"
    and h4: "query_path ?q = collectionPath None"
    and h5: "\<forall>e \<in> set (remote ready_system). own_id (snd e) = None"
    and o: "own_id paycheck_doc = None \<and> own_id groceries_doc = None"
    and v: "''b'' \<in> id ` set (items (app (client ready_system)))"
    and n: "length (pending ready_world) = 0"
    and c: "client ready_system = ready_world"
    by (simp_all add: ready_system_def ready_world_def valid_id_def collectionPath_def
        appId_def paycheck_doc_def groceries_doc_def groceries_def)
  have r: "filter (\<lambda>e. document_path e \<noteq> query_path ?q @ ''/'' @ ''b'') (remote ready_system) =
             [(''artifacts/default-app-id/public/data/budget-items'', paycheck_doc)]"
    by (simp add: ready_system_def document_path_def paycheck_doc_def groceries_doc_def)
  have p: "pending ready_world = []"
    by (simp add: ready_world_def)
  note t = delete_twice [OF h1 h2 h3 h4 h5, of "''x''" 7 "''y''" 8 "''gone''", unfolded c n r]
  from t have t1: "client (system_step None ready_system (Client (DeleteItemCalled ''b''))) =
     ready_world\<lparr>pending :=
        [DeleteDoc ''artifacts/default-app-id/public/data/budget-items/b'']\<rparr>"
    by (simp add: p)
  from t have t2: "system_run None ready_system
     [Client (DeleteItemCalled ''b''), Acknowledged 0 ''x'' 7,
      Client (DeleteItemCalled ''b''), Acknowledged 0 ''y'' 8] =
     \<lparr>client = ready_world,
      remote = [(''artifacts/default-app-id/public/data/budget-items'', paycheck_doc)]\<rparr>"
    by blast
  from t have t5: "''b'' \<notin> id ` set (items (app (client (system_run None ready_system
     [Client (DeleteItemCalled ''b''), Acknowledged 0 ''x'' 7,
      Client (DeleteItemCalled ''b''), Acknowledged 0 ''y'' 8, Delivered]))))"
    by blast
  from h1 h2 o v t1 t2 t5 show ?thesis by blast
qed

text \<open>
  Claim C10. While the database handle is \<^verbatim>\<open>null\<close>, a call of either handler returns at
  once: no request is sent, no error is set or logged, and neither the loading flag nor any
  other part of the state changes.
\<close>

theorem handlers_noop_without_db:
  "db (app w) = None \<Longrightarrow>
     handleAddItem g w item = w \<and> handleDeleteItem g w i = w \<and>
     step g w (AddItemCalled item) = w \<and> step g w (DeleteItemCalled i) = w"
  by (simp add: step_AddItemCalled step_DeleteItemCalled handleAddItem_def
      handleDeleteItem_def)

theorem handlers_noop_without_db_witness:
  "db (app (initial_world :: real world)) = None \<and>
   handleAddItem None initial_world refund = initial_world \<and>
   handleDeleteItem None (initial_world :: real world) ''b'' = initial_world \<and>
   step None initial_world (AddItemCalled refund) = initial_world \<and>
   step None (initial_world :: real world) (DeleteItemCalled ''b'') = initial_world"
proof -
  have h: "db (app (initial_world :: real world)) = None"
    by (simp add: initial_world_def initial_state_def)
  show ?thesis
    using h handlers_noop_without_db [OF h, of None refund "''b''"] by simp
qed

end
